theory Spec2Isabelle
  imports Complex_Main "HOL-Library.Multiset"
begin

section \<open>Floating-point values as pandas and Python see them\<close>

text \<open>
  The numeric columns of the program are binary64 floats. The embedding keeps what the
  control flow of the program depends on: the not-a-number value that pandas uses for
  a missing entry, the two infinities that a division by zero produces, and finite values.
  Finite arithmetic is exact (rounding and the sign of zero are not represented).
\<close>

datatype fval = NaN | Fin real | PInf | NInf

fun fneg :: "fval \<Rightarrow> fval" where
  "fneg NaN = NaN"
| "fneg (Fin x) = Fin (- x)"
| "fneg PInf = NInf"
| "fneg NInf = PInf"

fun fadd :: "fval \<Rightarrow> fval \<Rightarrow> fval" where
  "fadd NaN _ = NaN"
| "fadd _ NaN = NaN"
| "fadd (Fin x) (Fin y) = Fin (x + y)"
| "fadd (Fin _) PInf = PInf"
| "fadd (Fin _) NInf = NInf"
| "fadd PInf NInf = NaN"
| "fadd PInf _ = PInf"
| "fadd NInf PInf = NaN"
| "fadd NInf _ = NInf"

definition fsub :: "fval \<Rightarrow> fval \<Rightarrow> fval" where
  "fsub a b = fadd a (fneg b)"

text \<open>The sign of a value: \<open>1\<close>, \<open>0\<close> or \<open>-1\<close>; not used on \<open>NaN\<close>.\<close>

fun fsign :: "fval \<Rightarrow> int" where
  "fsign NaN = 0"
| "fsign (Fin x) = (if 0 < x then 1 else if x < 0 then - 1 else 0)"
| "fsign PInf = 1"
| "fsign NInf = - 1"

definition inf_of_sign :: "int \<Rightarrow> fval" where
  "inf_of_sign s = (if 0 < s then PInf else if s < 0 then NInf else NaN)"

fun fmul :: "fval \<Rightarrow> fval \<Rightarrow> fval" where
  "fmul NaN _ = NaN"
| "fmul _ NaN = NaN"
| "fmul (Fin x) (Fin y) = Fin (x * y)"
| "fmul a b = inf_of_sign (fsign a * fsign b)"

text \<open>
  Division as numpy performs it on binary64: a non-zero value over zero is an infinity,
  zero over zero is \<open>NaN\<close>, a finite value over an infinity is zero. The divisor zero is
  taken as positive zero.
\<close>

fun fdiv :: "fval \<Rightarrow> fval \<Rightarrow> fval" where
  "fdiv NaN _ = NaN"
| "fdiv _ NaN = NaN"
| "fdiv (Fin x) (Fin y) = (if y = 0 then inf_of_sign (fsign (Fin x)) else Fin (x / y))"
| "fdiv (Fin _) _ = Fin 0"
| "fdiv a (Fin y) = inf_of_sign (fsign a * (if y < 0 then - 1 else 1))"
| "fdiv _ _ = NaN"

text \<open>Comparisons: every comparison with \<open>NaN\<close> is false.\<close>

fun flt :: "fval \<Rightarrow> fval \<Rightarrow> bool" where
  "flt NaN _ = False"
| "flt _ NaN = False"
| "flt (Fin x) (Fin y) = (x < y)"
| "flt (Fin _) PInf = True"
| "flt (Fin _) NInf = False"
| "flt PInf _ = False"
| "flt NInf NInf = False"
| "flt NInf _ = True"

definition fgt :: "fval \<Rightarrow> fval \<Rightarrow> bool" where
  "fgt a b = flt b a"

text \<open>Python truthiness of a float: only zero is false (\<open>NaN\<close> is true).\<close>

fun truthy :: "fval \<Rightarrow> bool" where
  "truthy (Fin x) = (x \<noteq> 0)"
| "truthy _ = True"

fun isna :: "fval \<Rightarrow> bool" where
  "isna NaN = True"
| "isna _ = False"

section \<open>Sentiment aggregation\<close>

text \<open>
  One result of the sentiment classifier: the label and its confidence, as the pipeline
  returns them (\<open>result['label']\<close>, \<open>result['score']\<close>).
\<close>

record classified =
  label :: string
  score :: real

record analyzed =
  title :: string
  a_label :: string
  a_score :: real

record sentiment =
  overall :: string
  sentiment_score :: real
  news :: "analyzed list"

text \<open>The contribution of one headline, as the conditional expression in the loop computes it.\<close>

definition signed_score :: "classified \<Rightarrow> real" where
  "signed_score result =
     (if label result = ''positive'' then score result
      else if label result = ''negative'' then - score result
      else 0)"

text \<open>
  The loop \<open>for headline, result in zip(headlines, results)\<close> of \<open>get_sentiment\<close> and of
  \<open>analyze_sentiment\<close>, with its two accumulators.
\<close>

fun aggregate_loop :: "(string \<times> classified) list \<Rightarrow> real \<times> analyzed list \<Rightarrow> real \<times> analyzed list" where
  "aggregate_loop [] acc = acc"
| "aggregate_loop ((headline, result) # rest) (score_acc, analyzed_news) =
     aggregate_loop rest
       (score_acc + signed_score result,
        analyzed_news @ [\<lparr>title = headline, a_label = label result, a_score = score result\<rparr>])"

definition overall_label :: "real \<Rightarrow> string" where
  "overall_label s =
     (if s > 0.1 then ''Positive'' else if s < - 0.1 then ''Negative'' else ''Neutral'')"

definition aggregate :: "string list \<Rightarrow> classified list \<Rightarrow> sentiment" where
  "aggregate headlines results =
     (let (s, analyzed_news) = aggregate_loop (zip headlines results) (0, [])
      in \<lparr>overall = overall_label s, sentiment_score = s, news = analyzed_news\<rparr>)"

text \<open>The aggregate as the specification words it: a sum of signed confidences.\<close>

definition spec_signed_sum :: "classified list \<Rightarrow> real" where
  "spec_signed_sum results =
     (\<Sum>r\<leftarrow>results.
        if label r = ''positive'' then score r
        else if label r = ''negative'' then - score r else 0)"

section \<open>Exceptions\<close>

text \<open>The exceptions that the modelled code raises, with their messages where it gives one.\<close>

datatype exn =
    ValueError string
  | TypeError
  | AttributeError string
  | IndexError
  | HTTPException int string
  | OtherError string

definition bind_exn :: "exn + 'a \<Rightarrow> ('a \<Rightarrow> exn + 'b) \<Rightarrow> exn + 'b" where
  "bind_exn m f = (case m of Inl e \<Rightarrow> Inl e | Inr x \<Rightarrow> f x)"

section \<open>Ratio normalisation (\<open>analysis_layer.py\<close>)\<close>

text \<open>
  A value of the provider's \<open>info\<close> dictionary: \<open>None\<close>, a number, a string, or another
  object (a list, a dictionary), of which only the truthiness matters. The dictionary is
  an association list; the financial data is the dictionary that \<open>get_financials\<close> builds,
  of which only \<open>'info'\<close> is read, or \<open>None\<close> when the fetch failed.
\<close>

datatype raw = RNone | RNum fval | RStr string | RObj bool

type_synonym info_dict = "(string \<times> raw) list"

record financials =
  info :: "info_dict option"

text \<open>The ad-hoc \<open>Ratios\<close> object is its attribute dictionary, in insertion order.\<close>

type_synonym ratios = "(string \<times> fval) list"

text \<open>\<open>dict.get(key, default)\<close>.\<close>

definition dict_get :: "info_dict \<Rightarrow> string \<Rightarrow> raw \<Rightarrow> raw" where
  "dict_get d key dflt = (case map_of d key of None \<Rightarrow> dflt | Some v \<Rightarrow> v)"

text \<open>
  Truthiness of a dictionary value (\<open>None\<close>, zero and the empty string are false), and
  Python's \<open>x or y\<close>.
\<close>

fun raw_truthy :: "raw \<Rightarrow> bool" where
  "raw_truthy RNone = False"
| "raw_truthy (RNum x) = truthy x"
| "raw_truthy (RStr s) = (s \<noteq> [])"
| "raw_truthy (RObj t) = t"

definition py_or :: "raw \<Rightarrow> raw \<Rightarrow> raw" where
  "py_or x y = (if raw_truthy x then x else y)"

text \<open>
  \<open>float\<close> of a string, after the grammar of the language reference: surrounding
  whitespace is stripped; an optional sign is followed by \<open>inf\<close>, \<open>infinity\<close> or \<open>nan\<close> in
  any case, or by a decimal number with an optional exponent, where single underscores may
  separate digits. The value is exact. \<open>None\<close> stands for a string that \<open>float\<close> rejects.
\<close>

definition is_space :: "char \<Rightarrow> bool" where
  "is_space c =
     (c \<in> set [CHR '' '', CHR 0x09, CHR 0x0A, CHR 0x0B, CHR 0x0C, CHR 0x0D,
                CHR 0x1C, CHR 0x1D, CHR 0x1E, CHR 0x1F])"

definition strip :: "string \<Rightarrow> string" where
  "strip s = rev (dropWhile is_space (rev (dropWhile is_space s)))"

definition digit_of :: "char \<Rightarrow> nat option" where
  "digit_of c = map_of (zip ''0123456789'' [0, 1, 2, 3, 4, 5, 6, 7, 8, 9]) c"

definition to_lower :: "char \<Rightarrow> char" where
  "to_lower c =
     (case map_of (zip ''ABCDEFGHIJKLMNOPQRSTUVWXYZ'' ''abcdefghijklmnopqrstuvwxyz'') c of
        None \<Rightarrow> c
      | Some l \<Rightarrow> l)"

text \<open>The digits that continue a digit part, and what follows them.\<close>

fun more_digits :: "string \<Rightarrow> nat list \<times> string" where
  "more_digits [] = ([], [])"
| "more_digits [c] = (case digit_of c of None \<Rightarrow> ([], [c]) | Some v \<Rightarrow> ([v], []))"
| "more_digits (c # d # cs) =
     (case digit_of c of
        Some v \<Rightarrow> (case more_digits (d # cs) of (ds, r) \<Rightarrow> (v # ds, r))
      | None \<Rightarrow>
          (if c = CHR ''_'' then
             (case digit_of d of
                Some v \<Rightarrow> (case more_digits cs of (ds, r) \<Rightarrow> (v # ds, r))
              | None \<Rightarrow> ([], c # d # cs))
           else ([], c # d # cs)))"

definition digitpart :: "string \<Rightarrow> (nat list \<times> string) option" where
  "digitpart s =
     (case s of
        [] \<Rightarrow> None
      | c # cs \<Rightarrow>
          (case digit_of c of
             None \<Rightarrow> None
           | Some v \<Rightarrow> (case more_digits cs of (ds, r) \<Rightarrow> Some (v # ds, r))))"

text \<open>
  A number: the digits before the point, the digits after it, and the rest of the
  string.
\<close>

definition number :: "string \<Rightarrow> (nat list \<times> nat list \<times> string) option" where
  "number s =
     (case digitpart s of
        Some (ip, r) \<Rightarrow>
          (case r of
             [] \<Rightarrow> Some (ip, [], r)
           | c # r' \<Rightarrow>
               if c = CHR ''.'' then
                 (case digitpart r' of
                    Some (fp, r'') \<Rightarrow> Some (ip, fp, r'')
                  | None \<Rightarrow> Some (ip, [], r'))
               else Some (ip, [], r))
      | None \<Rightarrow>
          (case s of
             [] \<Rightarrow> None
           | c # r' \<Rightarrow>
               if c = CHR ''.'' then
                 (case digitpart r' of
                    Some (fp, r'') \<Rightarrow> Some ([], fp, r'')
                  | None \<Rightarrow> None)
               else None))"

text \<open>An optional sign: its factor and the rest of the string.\<close>

definition opt_sign :: "string \<Rightarrow> int \<times> string" where
  "opt_sign s =
     (case s of
        [] \<Rightarrow> (1, s)
      | c # r \<Rightarrow> if c = CHR ''+'' then (1, r) else if c = CHR ''-'' then (- 1, r) else (1, s))"

text \<open>
  The exponent that may follow a number, and the rest of the string; \<open>None\<close> when an
  exponent letter is not followed by digits.
\<close>

definition digits_value :: "nat list \<Rightarrow> nat" where
  "digits_value ds = foldl (\<lambda>a d. 10 * a + d) 0 ds"

definition exponent :: "string \<Rightarrow> (int \<times> string) option" where
  "exponent s =
     (case s of
        [] \<Rightarrow> Some (0, [])
      | c # r \<Rightarrow>
          if c = CHR ''e'' \<or> c = CHR ''E'' then
            (case opt_sign r of
               (sg, r') \<Rightarrow>
                 (case digitpart r' of
                    None \<Rightarrow> None
                  | Some (ds, r'') \<Rightarrow> Some (sg * int (digits_value ds), r'')))
          else Some (0, s))"

definition scale10 :: "real \<Rightarrow> int \<Rightarrow> real" where
  "scale10 x e = (if 0 \<le> e then x * 10 ^ nat e else x / 10 ^ nat (- e))"

definition float_of_string :: "string \<Rightarrow> fval option" where
  "float_of_string s =
     (case opt_sign (strip s) of
        (sg, u) \<Rightarrow>
          if map to_lower u = ''inf'' \<or> map to_lower u = ''infinity''
          then Some (if sg = 1 then PInf else NInf)
          else if map to_lower u = ''nan'' then Some NaN
          else
            (case number u of
               None \<Rightarrow> None
             | Some (ip, fp, r) \<Rightarrow>
                 (case exponent r of
                    None \<Rightarrow> None
                  | Some (e, r') \<Rightarrow>
                      if r' = [] then
                        Some (Fin (real_of_int sg *
                                   scale10 (real (digits_value ip) +
                                            real (digits_value fp) / 10 ^ length fp) e))
                      else None)))"

text \<open>
  \<open>float(x)\<close>: a number is itself; a string is parsed, and a string that is not a number
  raises \<open>ValueError\<close>; \<open>None\<close> and other objects raise \<open>TypeError\<close>.
\<close>

fun py_float :: "raw \<Rightarrow> exn + fval" where
  "py_float RNone = Inl TypeError"
| "py_float (RNum x) = Inr x"
| "py_float (RStr s) =
     (case float_of_string s of
        None \<Rightarrow> Inl (ValueError (''could not convert string to float: '' @ s))
      | Some v \<Rightarrow> Inr v)"
| "py_float (RObj t) = Inl TypeError"

text \<open>The helper \<open>get_val(key, default=0.0)\<close>: \<open>float(info.get(key, default) or 0.0)\<close>.\<close>

definition get_val :: "info_dict \<Rightarrow> string \<Rightarrow> fval \<Rightarrow> exn + fval" where
  "get_val dct key dflt = py_float (py_or (dict_get dct key (RNum dflt)) (RNum (Fin 0)))"

text \<open>\<open>_empty_ratios\<close>: every name of the list set to \<open>0.0\<close> by \<open>setattr\<close>.\<close>

definition empty_ratios :: ratios where
  "empty_ratios =
     map (\<lambda>k. (k, Fin 0))
       [''roe'', ''roa'', ''net_profit_margin'', ''gross_profit_margin'', ''current_ratio'',
        ''quick_ratio'', ''cash_ratio'', ''debt_to_equity'', ''debt_to_assets'',
        ''equity_multiplier'', ''asset_turnover'', ''inventory_turnover'',
        ''receivables_turnover'', ''pe_ratio'', ''pb_ratio'', ''market_cap'']"

text \<open>
  \<open>calculate_ratios\<close>, given what \<open>get_financials(symbol)\<close> returned. The keyword
  arguments of \<open>Ratios(...)\<close> are evaluated left to right; in the conditional expression of
  \<open>debt_to_equity\<close> the condition is evaluated first.
\<close>

definition calculate_ratios :: "financials option \<Rightarrow> exn + ratios" where
  "calculate_ratios data =
     (case data of
        None \<Rightarrow> Inr empty_ratios
      | Some d \<Rightarrow>
          (case info d of
             None \<Rightarrow> Inr empty_ratios
           | Some dct \<Rightarrow>
               if dct = [] then Inr empty_ratios
               else
                 bind_exn (get_val dct ''returnOnEquity'' (Fin 0)) (\<lambda>v_roe.
                 bind_exn (get_val dct ''returnOnAssets'' (Fin 0)) (\<lambda>v_roa.
                 bind_exn (get_val dct ''profitMargins'' (Fin 0)) (\<lambda>v_npm.
                 bind_exn (get_val dct ''grossMargins'' (Fin 0)) (\<lambda>v_gpm.
                 bind_exn (get_val dct ''currentRatio'' (Fin 0)) (\<lambda>v_cur.
                 bind_exn (get_val dct ''quickRatio'' (Fin 0)) (\<lambda>v_quick.
                 bind_exn (get_val dct ''debtToEquity'' (Fin 0)) (\<lambda>c_de.
                 bind_exn (if truthy c_de
                           then bind_exn (get_val dct ''debtToEquity'' (Fin 0))
                                  (\<lambda>v. Inr (fdiv v (Fin 100)))
                           else Inr (Fin 0)) (\<lambda>v_de.
                 bind_exn (get_val dct ''trailingPE'' (Fin 0)) (\<lambda>v_pe.
                 bind_exn (get_val dct ''priceToBook'' (Fin 0)) (\<lambda>v_pb.
                 bind_exn (get_val dct ''marketCap'' (Fin 0)) (\<lambda>v_cap.
                 Inr [(''roe'', fmul v_roe (Fin 100)),
                      (''roa'', fmul v_roa (Fin 100)),
                      (''net_profit_margin'', fmul v_npm (Fin 100)),
                      (''gross_profit_margin'', fmul v_gpm (Fin 100)),
                      (''current_ratio'', v_cur),
                      (''quick_ratio'', v_quick),
                      (''cash_ratio'', Fin 0),
                      (''debt_to_equity'', v_de),
                      (''debt_to_assets'', Fin 0),
                      (''equity_multiplier'', Fin 0),
                      (''asset_turnover'', Fin 0),
                      (''inventory_turnover'', Fin 0),
                      (''receivables_turnover'', Fin 0),
                      (''pe_ratio'', v_pe),
                      (''pb_ratio'', v_pb),
                      (''market_cap'', v_cap)])))))))))))))"

section \<open>Undervalued scan (\<open>analysis_layer.py\<close>)\<close>

text \<open>Attribute access \<open>r.name\<close> on a \<open>Ratios\<close> object.\<close>

definition getattr :: "ratios \<Rightarrow> string \<Rightarrow> exn + fval" where
  "getattr r name = (case map_of r name of None \<Rightarrow> Inl (AttributeError name) | Some v \<Rightarrow> Inr v)"

record score_record =
  symbol :: string
  sc_score :: int
  pe_ratio :: fval
  roe :: fval

text \<open>The four \<open>if ...: score += 1\<close> statements, in their order.\<close>

definition score_ratios :: "ratios \<Rightarrow> exn + int" where
  "score_ratios r =
     bind_exn (getattr r ''pe_ratio'') (\<lambda>pe.
     bind_exn (getattr r ''pb_ratio'') (\<lambda>pb.
     bind_exn (getattr r ''roe'') (\<lambda>ro.
     bind_exn (getattr r ''debt_to_equity'') (\<lambda>de.
       let s0 = (0::int);
           s1 = (if flt (Fin 0) pe \<and> flt pe (Fin 25) then s0 + 1 else s0);
           s2 = (if flt (Fin 0) pb \<and> flt pb (Fin 5) then s1 + 1 else s1);
           s3 = (if fgt ro (Fin 15) then s2 + 1 else s2);
           s4 = (if flt de (Fin 1) then s3 + 1 else s3)
       in Inr s4))))"

text \<open>The body of the loop over the candidates, with the list \<open>results\<close> it appends to.\<close>

fun scan_loop ::
  "(string \<Rightarrow> financials option) \<Rightarrow> string list \<Rightarrow> score_record list \<Rightarrow> exn + score_record list"
where
  "scan_loop get_financials [] results = Inr results"
| "scan_loop get_financials (s_sym # rest) results =
     (case calculate_ratios (get_financials s_sym) of
        Inl e \<Rightarrow> Inl e
      | Inr r \<Rightarrow>
          (case score_ratios r of
             Inl e \<Rightarrow> Inl e
           | Inr s \<Rightarrow>
               if s \<ge> 3 then
                 (case getattr r ''pe_ratio'' of
                    Inl e \<Rightarrow> Inl e
                  | Inr pe \<Rightarrow>
                      (case getattr r ''roe'' of
                         Inl e \<Rightarrow> Inl e
                       | Inr ro \<Rightarrow>
                           scan_loop get_financials rest
                             (results @ [\<lparr>symbol = s_sym, sc_score = s, pe_ratio = pe, roe = ro\<rparr>])))
               else scan_loop get_financials rest results))"

text \<open>
  \<open>results.sort(key=lambda x: x['score'], reverse=True)\<close>: the list sort is stable, and with
  \<open>reverse=True\<close> it reverses the list, sorts it ascending and stable, and reverses it again.
\<close>

definition sort_score_desc :: "score_record list \<Rightarrow> score_record list" where
  "sort_score_desc results = rev (sort_key sc_score (rev results))"

text \<open>The slice \<open>xs[:n]\<close>; a negative \<open>n\<close> counts from the end.\<close>

definition slice_to :: "'a list \<Rightarrow> int \<Rightarrow> 'a list" where
  "slice_to xs n = (if 0 \<le> n then take (nat n) xs else take (length xs - nat (- n)) xs)"

text \<open>The scan over a given universe, and over the list written in the source.\<close>

definition scan_universe ::
  "(string \<Rightarrow> financials option) \<Rightarrow> string list \<Rightarrow> int \<Rightarrow> exn + score_record list"
where
  "scan_universe get_financials universe limit =
     (case scan_loop get_financials universe [] of
        Inl e \<Rightarrow> Inl e
      | Inr results \<Rightarrow> Inr (slice_to (sort_score_desc results) limit))"

definition candidates :: "string list" where
  "candidates =
     [''AAPL'', ''MSFT'', ''GOOGL'', ''AMZN'', ''NVDA'', ''META'', ''TSLA'', ''BRK-B'', ''V'', ''UNH'',
      ''JNJ'', ''XOM'', ''JPM'', ''PG'', ''MA'', ''LLY'', ''HD'', ''CVX'', ''MRK'', ''ABBV'',
      ''PEP'', ''KO'', ''AVGO'', ''COST'', ''TMO'', ''MCD'', ''CSCO'', ''ACN'', ''WMT'', ''PFE'',
      ''BAC'', ''LIN'', ''CRM'', ''ABT'', ''DIS'', ''AMD'', ''DHR'', ''TXN'', ''NEE'', ''PM'',
      ''WFC'', ''ADBE'', ''NKE'', ''UPS'', ''RTX'', ''BMY'', ''T'', ''LOW'', ''INTC'', ''MS'',
      ''QCOM'', ''HON'', ''IBM'', ''UNP'', ''INTU'', ''SBUX'', ''GE'', ''EL'', ''DE'', ''GS'',
      ''AMAT'', ''C'', ''CAT'', ''PLD'', ''BLK'', ''BA'', ''SCHW'', ''CVS'', ''AMT'', ''MMC'',
      ''COP'', ''LMT'', ''ADP'', ''AXP'', ''MDT'', ''CI'', ''GILD'', ''ISRG'', ''TJX'', ''VRTX'',
      ''TGT'', ''MO'', ''ZTS'', ''EOG'', ''BDX'', ''SO'', ''FI'', ''SPGI'', ''REGN'', ''NOW'',
      ''SYK'', ''CB'', ''BKNG'', ''DUK'', ''LRCX'', ''ADI'', ''Z'', ''UBER'', ''ABNB'', ''PANW'']"

definition find_undervalued_stocks ::
  "(string \<Rightarrow> financials option) \<Rightarrow> int \<Rightarrow> exn + score_record list"
where
  "find_undervalued_stocks get_financials limit = scan_universe get_financials candidates limit"

text \<open>
  The score as the specification words it: the number of criteria that hold among
  \<open>0 < pe_ratio < 25\<close>, \<open>0 < pb_ratio < 5\<close>, \<open>roe > 15\<close> and \<open>debt_to_equity < 1.0\<close>.
\<close>

definition spec_score :: "fval \<Rightarrow> fval \<Rightarrow> fval \<Rightarrow> fval \<Rightarrow> int" where
  "spec_score pe pb ro de =
     int (length (filter (\<lambda>c. c)
       [flt (Fin 0) pe \<and> flt pe (Fin 25), flt (Fin 0) pb \<and> flt pb (Fin 5),
        fgt ro (Fin 15), flt de (Fin 1)]))"




definition attr :: "ratios \<Rightarrow> string \<Rightarrow> fval" where
  "attr r name = (case map_of r name of Some v \<Rightarrow> v | None \<Rightarrow> NaN)"

definition the_ratios :: "financials option \<Rightarrow> ratios" where
  "the_ratios data = (case calculate_ratios data of Inr r \<Rightarrow> r | Inl _ \<Rightarrow> [])"

definition scored :: "(string \<Rightarrow> financials option) \<Rightarrow> string \<Rightarrow> score_record" where
  "scored get_financials s_sym =
     (let r = the_ratios (get_financials s_sym)
      in \<lparr>symbol = s_sym,
          sc_score = spec_score (attr r ''pe_ratio'') (attr r ''pb_ratio'') (attr r ''roe'')
                       (attr r ''debt_to_equity''),
          pe_ratio = attr r ''pe_ratio'',
          roe = attr r ''roe''\<rparr>)"


text \<open>The attribute names of a \<open>Ratios\<close> object, in the order in which they are set.\<close>

definition ratio_names :: "string list" where
  "ratio_names =
     [''roe'', ''roa'', ''net_profit_margin'', ''gross_profit_margin'', ''current_ratio'',
      ''quick_ratio'', ''cash_ratio'', ''debt_to_equity'', ''debt_to_assets'',
      ''equity_multiplier'', ''asset_turnover'', ''inventory_turnover'',
      ''receivables_turnover'', ''pe_ratio'', ''pb_ratio'', ''market_cap'']"



section \<open>Feature engineering (\<open>build_model.py\<close>, \<open>api.py\<close>, \<open>huggingface_app.py\<close>)\<close>

text \<open>
  One row of the price history. The date index of the data frame is represented by the
  position of the row; the fields are finite numbers.
\<close>

record bar =
  Open :: real
  High :: real
  Low :: real
  Close :: real
  Volume :: real

definition Close_col :: "bar list \<Rightarrow> fval list" where
  "Close_col df = map (\<lambda>b. Fin (Close b)) df"

definition Volume_col :: "bar list \<Rightarrow> fval list" where
  "Volume_col df = map (\<lambda>b. Fin (Volume b)) df"

text \<open>The pandas column operations that the code calls.\<close>

definition pct_change :: "fval list \<Rightarrow> fval list" where
  "pct_change xs =
     map (\<lambda>i. if i = 0 then NaN else fsub (fdiv (xs ! i) (xs ! (i - 1))) (Fin 1)) [0..<length xs]"

definition diff :: "fval list \<Rightarrow> fval list" where
  "diff xs = map (\<lambda>i. if i = 0 then NaN else fsub (xs ! i) (xs ! (i - 1))) [0..<length xs]"

text \<open>\<open>shift(-1)\<close>: the next row's value; the last row gets \<open>NaN\<close>.\<close>

definition shift_next :: "fval list \<Rightarrow> fval list" where
  "shift_next xs = map (\<lambda>i. if i + 1 < length xs then xs ! (i + 1) else NaN) [0..<length xs]"

text \<open>\<open>s.where(cond, other)\<close>: keep the entry where the condition holds, else \<open>other\<close>.\<close>

definition series_where :: "fval list \<Rightarrow> bool list \<Rightarrow> fval \<Rightarrow> fval list" where
  "series_where xs conds other = map (\<lambda>(x, c). if c then x else other) (zip xs conds)"

definition fsum :: "fval list \<Rightarrow> fval" where
  "fsum xs = foldl fadd (Fin 0) xs"

text \<open>
  \<open>rolling(window=w).mean()\<close>: the mean of the \<open>w\<close> entries ending at the row; \<open>NaN\<close> while
  the window is not full or when it holds a \<open>NaN\<close> (fewer than \<open>w\<close> observations). The
  columns it is applied to (closing prices, gains, losses) hold no infinity.
\<close>

definition rolling_mean :: "nat \<Rightarrow> fval list \<Rightarrow> fval list" where
  "rolling_mean w xs =
     map (\<lambda>i. if i + 1 < w then NaN
              else (let win = take w (drop (i + 1 - w) xs)
                    in if list_ex isna win then NaN else fdiv (fsum win) (Fin (real w))))
       [0..<length xs]"

text \<open>
  \<open>calculate_rsi(data, window=14)\<close>; the same expressions stand inline, with window 14, in
  the two \<open>calculate_features\<close>. The average gain and loss are its \<open>gain\<close> and \<open>loss\<close>.
\<close>

definition avg_gain :: "fval list \<Rightarrow> nat \<Rightarrow> fval list" where
  "avg_gain data window =
     (let delta = diff data
      in rolling_mean window (series_where delta (map (\<lambda>d. fgt d (Fin 0)) delta) (Fin 0)))"

definition avg_loss :: "fval list \<Rightarrow> nat \<Rightarrow> fval list" where
  "avg_loss data window =
     (let delta = diff data
      in rolling_mean window
           (map fneg (series_where delta (map (\<lambda>d. flt d (Fin 0)) delta) (Fin 0))))"

definition rsi_of_rs :: "fval \<Rightarrow> fval" where
  "rsi_of_rs rs = fsub (Fin 100) (fdiv (Fin 100) (fadd (Fin 1) rs))"

definition calculate_rsi :: "fval list \<Rightarrow> nat \<Rightarrow> fval list" where
  "calculate_rsi data window =
     (let gain = avg_gain data window;
          loss = avg_loss data window;
          rs = map2 fdiv gain loss
      in map rsi_of_rs rs)"

text \<open>The columns that \<open>prepare_data\<close> and \<open>calculate_features\<close> add to the frame.\<close>

definition Returns_col :: "bar list \<Rightarrow> fval list" where
  "Returns_col df = pct_change (Close_col df)"

definition SMA_col :: "nat \<Rightarrow> bar list \<Rightarrow> fval list" where
  "SMA_col w df = rolling_mean w (Close_col df)"

definition Dist_SMA_col :: "nat \<Rightarrow> bar list \<Rightarrow> fval list" where
  "Dist_SMA_col w df = map2 (\<lambda>c s. fdiv (fsub c s) s) (Close_col df) (SMA_col w df)"

definition RSI_col :: "bar list \<Rightarrow> fval list" where
  "RSI_col df = calculate_rsi (Close_col df) 14"

definition Vol_Change_col :: "bar list \<Rightarrow> fval list" where
  "Vol_Change_col df = pct_change (Volume_col df)"

record feature_row =
  Returns :: fval
  Dist_SMA_20 :: fval
  Dist_SMA_50 :: fval
  RSI :: fval
  Vol_Change :: fval

definition feature_at :: "bar list \<Rightarrow> nat \<Rightarrow> feature_row" where
  "feature_at df i =
     \<lparr>Returns = Returns_col df ! i,
      Dist_SMA_20 = Dist_SMA_col 20 df ! i,
      Dist_SMA_50 = Dist_SMA_col 50 df ! i,
      RSI = RSI_col df ! i,
      Vol_Change = Vol_Change_col df ! i\<rparr>"

section \<open>Training data and training (\<open>build_model.py\<close>)\<close>

text \<open>
  \<open>Target\<close>: \<open>(df['Close'].shift(-1) > df['Close']).astype(int)\<close>. The comparison is a
  boolean column, so the column has an integer in every row.
\<close>

definition Target_col :: "bar list \<Rightarrow> int list" where
  "Target_col df =
     map2 (\<lambda>nxt c. if fgt nxt c then 1 else 0) (shift_next (Close_col df)) (Close_col df)"

text \<open>
  \<open>dropna\<close> removes the rows that hold a \<open>NaN\<close> in some column. The price columns are
  finite and \<open>Target\<close> is an integer column, so the added float columns decide.
\<close>

definition row_has_na :: "bar list \<Rightarrow> nat \<Rightarrow> bool" where
  "row_has_na df i =
     (isna (Returns_col df ! i) \<or> isna (SMA_col 20 df ! i) \<or> isna (SMA_col 50 df ! i)
      \<or> isna (Dist_SMA_col 20 df ! i) \<or> isna (Dist_SMA_col 50 df ! i)
      \<or> isna (RSI_col df ! i) \<or> isna (Vol_Change_col df ! i))"

text \<open>
  \<open>prepare_data\<close>, given the fetched history: the feature table \<open>X\<close> and the label column
  \<open>y\<close>, each row with its index.
\<close>

definition prepare_data ::
  "bar list \<Rightarrow> exn + ((nat \<times> feature_row) list \<times> (nat \<times> int) list)"
where
  "prepare_data df =
     (if df = [] then Inl (ValueError ''No data fetched.'')
      else (let kept = filter (\<lambda>i. \<not> row_has_na df i) [0..<length df]
            in Inr (map (\<lambda>i. (i, feature_at df i)) kept,
                    map (\<lambda>i. (i, Target_col df ! i)) kept)))"

text \<open>
  The artifacts that training writes. The library steps between the data and the
  artifacts (split, scaling, fitting, evaluation) are a parameter \<open>fit\<close> that returns the
  fitted model, the fitted scaler and the accuracy, or raises; \<open>can_write\<close> says whether
  writing a file succeeds; \<open>now\<close> is the time stamp.
\<close>

record metadata =
  model_type :: string
  trained_at :: string
  accuracy :: real
  features :: "string list"

datatype ('m, 's) artifact = ModelDump 'm | ScalerDump 's | MetadataJson metadata

type_synonym ('m, 's) files = "string \<Rightarrow> ('m, 's) artifact option"

definition write_file ::
  "(string \<Rightarrow> bool) \<Rightarrow> string \<Rightarrow> ('m, 's) artifact \<Rightarrow> ('m, 's) files \<Rightarrow> exn + ('m, 's) files"
where
  "write_file can_write path content fs =
     (if can_write path then Inr (fs(path \<mapsto> content)) else Inl (OtherError path))"

text \<open>
  \<open>build_model\<close>: the files after the run, and the exception that the \<open>except\<close> clause
  caught and printed, if any. Files written before an exception stay written.
\<close>

definition build_model ::
  "(exn + bar list) \<Rightarrow>
   ((nat \<times> feature_row) list \<Rightarrow> (nat \<times> int) list \<Rightarrow> exn + ('m \<times> 's \<times> real)) \<Rightarrow>
   string \<Rightarrow> (string \<Rightarrow> bool) \<Rightarrow> ('m, 's) files \<Rightarrow> ('m, 's) files \<times> exn option"
where
  "build_model fetched fit now can_write fs =
     (case fetched of
        Inl e \<Rightarrow> (fs, Some e)
      | Inr df \<Rightarrow>
          (case prepare_data df of
             Inl e \<Rightarrow> (fs, Some e)
           | Inr (X, y) \<Rightarrow>
               (case fit X y of
                  Inl e \<Rightarrow> (fs, Some e)
                | Inr (model, scaler, acc) \<Rightarrow>
                    (case write_file can_write ''adaboost_model.joblib'' (ModelDump model) fs of
                       Inl e \<Rightarrow> (fs, Some e)
                     | Inr fs1 \<Rightarrow>
                         (case write_file can_write ''scaler.joblib'' (ScalerDump scaler) fs1 of
                            Inl e \<Rightarrow> (fs1, Some e)
                          | Inr fs2 \<Rightarrow>
                              (case write_file can_write ''model_metadata.json''
                                      (MetadataJson
                                         \<lparr>model_type = ''AdaBoostClassifier'',
                                          trained_at = now,
                                          accuracy = acc,
                                          features = [''Returns'', ''Dist_SMA_20'', ''Dist_SMA_50'',
                                                      ''RSI'', ''Vol_Change'']\<rparr>) fs2 of
                                 Inl e \<Rightarrow> (fs2, Some e)
                               | Inr fs3 \<Rightarrow> (fs3, None)))))))"

section \<open>Direction prediction (\<open>api.py\<close>, \<open>huggingface_app.py\<close>)\<close>

text \<open>
  \<open>calculate_features\<close>: the last row of the five feature columns. On an empty frame the
  positional selection raises, the \<open>except\<close> clause returns an empty frame: \<open>None\<close>.
\<close>

definition calculate_features :: "bar list \<Rightarrow> feature_row option" where
  "calculate_features df = (if df = [] then None else Some (feature_at df (length df - 1)))"

text \<open>\<open>fillna(0)\<close> on a value and on the feature row.\<close>

definition fillna0 :: "fval \<Rightarrow> fval" where
  "fillna0 v = (if isna v then Fin 0 else v)"

definition fillna :: "feature_row \<Rightarrow> feature_row" where
  "fillna f =
     \<lparr>Returns = fillna0 (Returns f), Dist_SMA_20 = fillna0 (Dist_SMA_20 f),
      Dist_SMA_50 = fillna0 (Dist_SMA_50 f), RSI = fillna0 (RSI f),
      Vol_Change = fillna0 (Vol_Change f)\<rparr>"

text \<open>
  The loaded artifacts are parameters: \<open>transform\<close> of the scaler and \<open>predict_proba\<close> of the
  model, which return a value or raise. \<open>predict_proba\<close> returns one row of class
  probabilities per input row.

  The steps inside \<open>if not df.empty and len(df) > 60\<close>, from the variables
  \<open>(custom_pred, custom_conf)\<close> to their values when the steps end, with the exception
  that ended them, if any. The feature computation is a parameter here.
\<close>

definition model_steps ::
  "(feature_row \<Rightarrow> exn + 'z) \<Rightarrow> ('z \<Rightarrow> exn + real list list) \<Rightarrow>
   (bar list \<Rightarrow> feature_row option) \<Rightarrow> bar list \<Rightarrow> string \<times> real \<Rightarrow>
   (string \<times> real) \<times> exn option"
where
  "model_steps transform predict_proba calc df vars =
     (case calc df of
        None \<Rightarrow> (vars, None)
      | Some feats \<Rightarrow>
          (case transform (fillna feats) of
             Inl e \<Rightarrow> (vars, Some e)
           | Inr features_scaled \<Rightarrow>
               (case predict_proba features_scaled of
                  Inl e \<Rightarrow> (vars, Some e)
                | Inr [] \<Rightarrow> (vars, Some IndexError)
                | Inr (prob # _) \<Rightarrow>
                    if length prob < 2 then (vars, Some IndexError)
                    else (let custom_pred = (if prob ! 1 > 0.5 then ''UP'' else ''DOWN'');
                              custom_conf = (if custom_pred = ''UP'' then prob ! 1 else prob ! 0)
                          in ((custom_pred, custom_conf), None)))))"

text \<open>
  \<open>api.py\<close>: the block under \<open>if custom_model and scaler\<close>, with its \<open>try\<close>: an exception
  is caught and printed, and the variables keep the values they had.
\<close>

definition custom_block ::
  "(feature_row \<Rightarrow> exn + 'z) \<Rightarrow> ('z \<Rightarrow> exn + real list list) \<Rightarrow>
   (bar list \<Rightarrow> feature_row option) \<Rightarrow> bar list \<Rightarrow> string \<times> real \<Rightarrow> string \<times> real"
where
  "custom_block transform predict_proba calc df vars =
     (if df \<noteq> [] \<and> length df > 60
      then fst (model_steps transform predict_proba calc df vars)
      else vars)"

record custom_model_result =
  cm_prediction :: string
  cm_confidence :: real
  cm_model_type :: string

record prediction_result =
  p_symbol :: string
  prediction :: string
  current_price :: fval
  sma_20 :: fval
  custom_model :: custom_model_result

text \<open>
  \<open>predict(symbol)\<close> of \<open>api.py\<close>, given the frame that the data manager returned and the
  loaded model and scaler (\<open>None\<close> when loading failed).
\<close>

definition predict_with ::
  "(bar list \<Rightarrow> feature_row option) \<Rightarrow> bar list \<Rightarrow> string \<Rightarrow>
   ('z \<Rightarrow> exn + real list list) option \<Rightarrow> (feature_row \<Rightarrow> exn + 'z) option \<Rightarrow>
   exn + prediction_result"
where
  "predict_with calc df ticker custom_model_opt scaler_opt =
     (if df = [] then Inl (HTTPException 404 ''Stock data not found'')
      else
        (let last_close = Close_col df ! (length df - 1);
             sma20 = (if length df > 20 then rolling_mean 20 (Close_col df) ! (length df - 1)
                      else last_close);
             pred = (if fgt last_close sma20 then ''UP'' else ''DOWN'');
             vars0 = (''Insufficient Data'', 0);
             vars = (case custom_model_opt of
                       None \<Rightarrow> vars0
                     | Some predict_proba \<Rightarrow>
                         (case scaler_opt of
                            None \<Rightarrow> vars0
                          | Some transform \<Rightarrow> custom_block transform predict_proba calc df vars0))
         in Inr \<lparr>p_symbol = ticker, prediction = pred, current_price = last_close, sma_20 = sma20,
                 custom_model = \<lparr>cm_prediction = fst vars, cm_confidence = snd vars,
                                  cm_model_type = ''AdaBoost''\<rparr>\<rparr>))"

definition predict ::
  "bar list \<Rightarrow> string \<Rightarrow> ('z \<Rightarrow> exn + real list list) option \<Rightarrow>
   (feature_row \<Rightarrow> exn + 'z) option \<Rightarrow> exn + prediction_result"
where
  "predict = predict_with calculate_features"

text \<open>
  \<open>huggingface_app.py\<close>, step 3 of the analysis of a non-empty frame: the same steps as
  in \<open>api.py\<close> under one condition and without a \<open>try\<close>, so an exception ends the run.
\<close>

definition hf_custom_model ::
  "bar list \<Rightarrow> ('z \<Rightarrow> exn + real list list) option \<Rightarrow> (feature_row \<Rightarrow> exn + 'z) option \<Rightarrow>
   exn + string \<times> real"
where
  "hf_custom_model df adaboost_opt scaler_opt =
     (case adaboost_opt of
        None \<Rightarrow> Inr (''Insufficient Data'', 0)
      | Some predict_proba \<Rightarrow>
          (case scaler_opt of
             None \<Rightarrow> Inr (''Insufficient Data'', 0)
           | Some transform \<Rightarrow>
               if length df > 60 then
                 (case model_steps transform predict_proba calculate_features df
                         (''Insufficient Data'', 0) of
                    (_, Some e) \<Rightarrow> Inl e
                  | (vars, None) \<Rightarrow> Inr vars)
               else Inr (''Insufficient Data'', 0)))"

text \<open>
  Example series and artifacts for evaluating the predictor: closing prices that alternate
  between 11 and 10 at constant volume, closing prices that rise by 1 each day, a scaler
  that passes the row on, a scaler that raises, and a model that answers with fixed
  probabilities.
\<close>

definition flat_bar :: "real \<Rightarrow> bar" where
  "flat_bar c = \<lparr>Open = c, High = c, Low = c, Close = c, Volume = 100\<rparr>"

definition alternating :: "nat \<Rightarrow> bar list" where
  "alternating n = map (\<lambda>i. flat_bar (if even i then 11 else 10)) [0..<n]"

definition rising :: "nat \<Rightarrow> bar list" where
  "rising n = map (\<lambda>i. flat_bar (real i + 1)) [0..<n]"

definition id_scaler :: "feature_row \<Rightarrow> exn + feature_row" where
  "id_scaler f = Inr f"

definition failing_scaler :: "feature_row \<Rightarrow> exn + feature_row" where
  "failing_scaler f = Inl (ValueError ''Input X contains infinity'')"

definition fixed_model :: "real \<Rightarrow> feature_row \<Rightarrow> exn + real list list" where
  "fixed_model p z = Inr ([1 - p, p] # [])"

text \<open>Auxiliary predicates on values: a finite non-negative number; not an infinity.\<close>

fun fin_nonneg :: "fval \<Rightarrow> bool" where
  "fin_nonneg (Fin r) = (0 \<le> r)"
| "fin_nonneg _ = False"

fun not_inf :: "fval \<Rightarrow> bool" where
  "not_inf NaN = True"
| "not_inf (Fin _) = True"
| "not_inf _ = False"

text \<open>
  Row-wise readings of the columns, used to evaluate a single row: the entry of
  \<open>rolling_mean\<close> at a row, the feature row and the \<open>dropna\<close> test computed from the windows
  that end at that row.
\<close>

definition window_mean :: "nat \<Rightarrow> fval list \<Rightarrow> nat \<Rightarrow> fval" where
  "window_mean w xs i =
     (if i + 1 < w then NaN
      else (let win = take w (drop (i + 1 - w) xs)
            in if list_ex isna win then NaN else fdiv (fsum win) (Fin (real w))))"

definition change_at :: "fval list \<Rightarrow> nat \<Rightarrow> fval" where
  "change_at xs i = (if i = 0 then NaN else fsub (fdiv (xs ! i) (xs ! (i - 1))) (Fin 1))"

definition dist_at :: "nat \<Rightarrow> bar list \<Rightarrow> nat \<Rightarrow> fval" where
  "dist_at w df i =
     (let c = Close_col df ! i; s = window_mean w (Close_col df) i in fdiv (fsub c s) s)"

definition gains :: "fval list \<Rightarrow> fval list" where
  "gains data = (let delta = diff data in series_where delta (map (\<lambda>d. fgt d (Fin 0)) delta) (Fin 0))"

definition losses :: "fval list \<Rightarrow> fval list" where
  "losses data =
     (let delta = diff data
      in map fneg (series_where delta (map (\<lambda>d. flt d (Fin 0)) delta) (Fin 0)))"

definition rsi_at :: "bar list \<Rightarrow> nat \<Rightarrow> fval" where
  "rsi_at df i =
     rsi_of_rs (fdiv (window_mean 14 (gains (Close_col df)) i)
                     (window_mean 14 (losses (Close_col df)) i))"

definition feature_row_at :: "bar list \<Rightarrow> nat \<Rightarrow> feature_row" where
  "feature_row_at df i =
     \<lparr>Returns = change_at (Close_col df) i,
      Dist_SMA_20 = dist_at 20 df i,
      Dist_SMA_50 = dist_at 50 df i,
      RSI = rsi_at df i,
      Vol_Change = change_at (Volume_col df) i\<rparr>"

definition row_na_at :: "bar list \<Rightarrow> nat \<Rightarrow> bool" where
  "row_na_at df i =
     (isna (change_at (Close_col df) i) \<or> isna (window_mean 20 (Close_col df) i)
      \<or> isna (window_mean 50 (Close_col df) i) \<or> isna (dist_at 20 df i)
      \<or> isna (dist_at 50 df i) \<or> isna (rsi_at df i) \<or> isna (change_at (Volume_col df) i))"

section \<open>Properties\<close>

lemma aggregate_loop_fst:
  "fst (aggregate_loop zs (s, an)) = s + (\<Sum>z\<leftarrow>zs. signed_score (snd z))"
  by (induction zs arbitrary: s an) auto

lemma aggregate_score:
  "sentiment_score (aggregate headlines results) =
     (\<Sum>z\<leftarrow>zip headlines results. signed_score (snd z))"
proof -
  obtain s an where sa: "aggregate_loop (zip headlines results) (0, []) = (s, an)"
    by (cases "aggregate_loop (zip headlines results) (0, [])")
  have "s = fst (aggregate_loop (zip headlines results) (0, []))"
    by (simp add: sa)
  then have "s = (\<Sum>z\<leftarrow>zip headlines results. signed_score (snd z))"
    by (simp add: aggregate_loop_fst)
  then show ?thesis
    by (simp add: aggregate_def sa)
qed

lemma aggregate_overall:
  "overall (aggregate headlines results) =
     overall_label (sentiment_score (aggregate headlines results))"
  by (simp add: aggregate_def split: prod.splits)

text \<open>
  C6. With one classification per headline, the aggregate score is the sum of
  \<open>+confidence\<close> for a positive label, \<open>-confidence\<close> for a negative label and \<open>0\<close> for any
  other label, not divided by the number of headlines; the overall label is Positive
  exactly when the aggregate exceeds \<open>0.1\<close>, Negative exactly when it is below \<open>-0.1\<close>, and
  Neutral exactly in between. In particular one positive headline at \<open>0.9\<close>, one negative
  at \<open>0.9\<close> and one neutral at \<open>0.5\<close> aggregate to \<open>0\<close> and the overall label is Neutral.
\<close>

theorem C6_sentiment_aggregate:
  assumes "length headlines = length results"
  shows "sentiment_score (aggregate headlines results) = spec_signed_sum results
       \<and> ((overall (aggregate headlines results) = ''Positive'') =
            (spec_signed_sum results > 0.1))
       \<and> ((overall (aggregate headlines results) = ''Negative'') =
            (spec_signed_sum results < - 0.1))
       \<and> ((overall (aggregate headlines results) = ''Neutral'') =
            (- 0.1 \<le> spec_signed_sum results \<and> spec_signed_sum results \<le> 0.1))
       \<and> sentiment_score (aggregate [h1, h2, h3]
            [\<lparr>label = ''positive'', score = 0.9\<rparr>, \<lparr>label = ''negative'', score = 0.9\<rparr>,
             \<lparr>label = ''neutral'', score = 0.5\<rparr>]) = 0
       \<and> overall (aggregate [h1, h2, h3]
            [\<lparr>label = ''positive'', score = 0.9\<rparr>, \<lparr>label = ''negative'', score = 0.9\<rparr>,
             \<lparr>label = ''neutral'', score = 0.5\<rparr>]) = ''Neutral''"
proof -
  have "(\<Sum>z\<leftarrow>zip headlines results. signed_score (snd z)) =
        (\<Sum>r\<leftarrow>map snd (zip headlines results). signed_score r)"
    by (simp add: comp_def)
  also have "\<dots> = (\<Sum>r\<leftarrow>results. signed_score r)"
    using assms by simp
  finally have s: "sentiment_score (aggregate headlines results) = spec_signed_sum results"
    by (simp add: aggregate_score spec_signed_sum_def signed_score_def)
  have p: "(overall (aggregate headlines results) = ''Positive'') =
           (spec_signed_sum results > 0.1)"
    by (simp add: aggregate_overall s overall_label_def)
  have n: "(overall (aggregate headlines results) = ''Negative'') =
           (spec_signed_sum results < - 0.1)"
    by (simp add: aggregate_overall s overall_label_def)
  have z: "(overall (aggregate headlines results) = ''Neutral'') =
           (- 0.1 \<le> spec_signed_sum results \<and> spec_signed_sum results \<le> 0.1)"
    by (auto simp add: aggregate_overall s overall_label_def)
  have e: "sentiment_score (aggregate [h1, h2, h3]
            [\<lparr>label = ''positive'', score = 0.9\<rparr>, \<lparr>label = ''negative'', score = 0.9\<rparr>,
             \<lparr>label = ''neutral'', score = 0.5\<rparr>]) = 0"
    by (simp add: aggregate_score signed_score_def)
  then have l: "overall (aggregate [h1, h2, h3]
            [\<lparr>label = ''positive'', score = 0.9\<rparr>, \<lparr>label = ''negative'', score = 0.9\<rparr>,
             \<lparr>label = ''neutral'', score = 0.5\<rparr>]) = ''Neutral''"
    by (simp add: aggregate_overall overall_label_def)
  from s p n z e l show ?thesis by blast
qed

text \<open>
  A batch of two headlines, both positive: the scores add up, the label is Positive.
\<close>

theorem C6_sentiment_aggregate_witness:
  "sentiment_score (aggregate [''a'', ''b'']
      [\<lparr>label = ''positive'', score = 0.6\<rparr>, \<lparr>label = ''positive'', score = 0.7\<rparr>]) = 1.3
   \<and> overall (aggregate [''a'', ''b'']
      [\<lparr>label = ''positive'', score = 0.6\<rparr>, \<lparr>label = ''positive'', score = 0.7\<rparr>]) = ''Positive''"
proof -
  have "length [''a'', ''b''] =
        length [\<lparr>label = ''positive'', score = 0.6\<rparr>, \<lparr>label = ''positive'', score = 0.7 :: real\<rparr>]"
    by simp
  from C6_sentiment_aggregate [OF this]
  show ?thesis by (simp add: spec_signed_sum_def)
qed

subsection \<open>Ratio normalisation\<close>








lemma bind_exn_Inl: "bind_exn (Inl e) f = Inl e"
  by (simp add: bind_exn_def)

lemma bind_exn_cases:
  "bind_exn m f = Inr y \<Longrightarrow> \<exists>x. m = Inr x \<and> f x = Inr y"
  by (cases m) (simp_all add: bind_exn_def)

lemma calculate_ratios_keys:
  "calculate_ratios data = Inr r \<Longrightarrow> map fst r = ratio_names"
  by (auto simp: calculate_ratios_def empty_ratios_def ratio_names_def
      split: option.splits if_splits dest!: bind_exn_cases)







text \<open>Strings that are numbers are converted.\<close>

lemma calculate_ratios_numeric_strings: "calculate_ratios (Some \<lparr>info = Some [(''trailingPE'', RStr ''12.5''), (''returnOnEquity'', RStr '' 2e-1 '')]\<rparr>) =
   Inr [(''roe'', Fin 20), (''roa'', Fin 0), (''net_profit_margin'', Fin 0), (''gross_profit_margin'', Fin 0),
        (''current_ratio'', Fin 0), (''quick_ratio'', Fin 0), (''cash_ratio'', Fin 0), (''debt_to_equity'', Fin 0),
        (''debt_to_assets'', Fin 0), (''equity_multiplier'', Fin 0), (''asset_turnover'', Fin 0),
        (''inventory_turnover'', Fin 0), (''receivables_turnover'', Fin 0), (''pe_ratio'', Fin (25/2)),
        (''pb_ratio'', Fin 0), (''market_cap'', Fin 0)]"
  by code_simp

subsection \<open>Undervalued scan\<close>

lemma the_ratios_eq: "calculate_ratios data = Inr r \<Longrightarrow> the_ratios data = r"
  by (simp add: the_ratios_def)

lemma getattr_present:
  assumes "name \<in> set (map fst r)"
  shows "getattr r name = Inr (attr r name)"
proof -
  from assms have "map_of r name \<noteq> None"
    by (simp add: map_of_eq_None_iff)
  then show ?thesis
    by (auto simp: getattr_def attr_def)
qed

lemma getattr_ratios:
  "calculate_ratios data = Inr r \<Longrightarrow> name \<in> set ratio_names \<Longrightarrow> getattr r name = Inr (attr r name)"
  by (rule getattr_present) (simp add: calculate_ratios_keys)

lemma score_ratios_spec:
  assumes "calculate_ratios data = Inr r"
  shows "score_ratios r =
     Inr (spec_score (attr r ''pe_ratio'') (attr r ''pb_ratio'') (attr r ''roe'')
            (attr r ''debt_to_equity''))"
  using getattr_ratios [OF assms]
  by (auto simp add: score_ratios_def bind_exn_def ratio_names_def spec_score_def Let_def)

lemma scan_loop_filter:
  assumes "\<forall>s\<in>set cs. \<exists>r. calculate_ratios (gf s) = Inr r"
  shows "scan_loop gf cs acc = Inr (acc @ filter (\<lambda>c. sc_score c \<ge> 3) (map (scored gf) cs))"
  using assms
proof (induction cs arbitrary: acc)
  case Nil
  show ?case by simp
next
  case (Cons c cs)
  from Cons.prems obtain r where r: "calculate_ratios (gf c) = Inr r" by auto
  have t: "the_ratios (gf c) = r" using r by (rule the_ratios_eq)
  have ih: "scan_loop gf cs acc' = Inr (acc' @ filter (\<lambda>c. sc_score c \<ge> 3) (map (scored gf) cs))"
    for acc' using Cons.IH Cons.prems by simp
  have sc: "scored gf c =
      \<lparr>symbol = c,
       sc_score = spec_score (attr r ''pe_ratio'') (attr r ''pb_ratio'') (attr r ''roe'')
                    (attr r ''debt_to_equity''),
       pe_ratio = attr r ''pe_ratio'', roe = attr r ''roe''\<rparr>"
    by (simp add: scored_def t Let_def)
  show ?case
    by (simp add: r score_ratios_spec [OF r] getattr_ratios [OF r] ratio_names_def ih sc)
qed





lemma scan_universe_eq:
  assumes "\<forall>s\<in>set universe. \<exists>r. calculate_ratios (gf s) = Inr r"
  shows "scan_universe gf universe n =
     Inr (slice_to (sort_score_desc (filter (\<lambda>c. sc_score c \<ge> 3) (map (scored gf) universe))) n)"
  by (simp add: scan_universe_def scan_loop_filter [OF assms])






lemma attr_all_zero:
  assumes "name \<in> set (map fst r)" and "\<forall>kv\<in>set r. snd kv = Fin 0"
  shows "attr r name = Fin 0"
proof -
  from assms(1) obtain v where v: "map_of r name = Some v"
    by (cases "map_of r name") (auto simp: map_of_eq_None_iff)
  then have "(name, v) \<in> set r"
    by (rule map_of_SomeD)
  with assms(2) have "v = Fin 0" by auto
  with v show ?thesis by (simp add: attr_def)
qed

lemma scored_all_zero:
  assumes "calculate_ratios (gf s) = Inr r" and "\<forall>kv\<in>set r. snd kv = Fin 0"
  shows "sc_score (scored gf s) = 1"
proof -
  have r: "the_ratios (gf s) = r"
    using assms(1) by (simp add: the_ratios_def)
  have k: "map fst r = ratio_names"
    using assms(1) by (rule calculate_ratios_keys)
  have "attr r ''pe_ratio'' = Fin 0" "attr r ''pb_ratio'' = Fin 0"
       "attr r ''roe'' = Fin 0" "attr r ''debt_to_equity'' = Fin 0"
    using assms(2) by (simp_all add: attr_all_zero k ratio_names_def)
  then show ?thesis
    by (simp add: scored_def r spec_score_def fgt_def)
qed

text \<open>
  C7. When every candidate's ratio object holds \<open>0.0\<close> at every attribute, the scan
  returns the empty list, for every limit, and returns normally.
\<close>

theorem C7_all_default_empty:
  assumes "\<forall>s\<in>set universe. \<exists>r. calculate_ratios (gf s) = Inr r \<and> (\<forall>kv\<in>set r. snd kv = Fin 0)"
  shows "scan_universe gf universe limit = Inr []"
proof -
  have ok: "\<forall>s\<in>set universe. \<exists>r. calculate_ratios (gf s) = Inr r"
    using assms by blast
  have "sc_score (scored gf s) = 1" if "s \<in> set universe" for s
    using assms that scored_all_zero by blast
  then have "filter (\<lambda>c. 3 \<le> sc_score c) (map (scored gf) universe) = []"
    by (simp add: filter_empty_conv)
  then show ?thesis
    by (simp add: scan_universe_eq [OF ok] sort_score_desc_def slice_to_def)
qed

theorem C7_all_default_empty_witness: "find_undervalued_stocks (\<lambda>s. None) 5 = Inr []"
  unfolding find_undervalued_stocks_def
  by (rule C7_all_default_empty) (simp add: calculate_ratios_def empty_ratios_def)

subsection \<open>Feature engineering\<close>

lemma length_diff [simp]: "length (diff xs) = length xs"
  by (simp add: diff_def)

lemma length_rolling_mean [simp]: "length (rolling_mean w xs) = length xs"
  by (simp add: rolling_mean_def)

lemma diff_not_inf: "x \<in> set (diff (map Fin cs)) \<Longrightarrow> not_inf x"
  by (auto simp: diff_def fsub_def)

lemma series_where_map:
  "series_where xs (map c xs) other = map (\<lambda>x. if c x then x else other) xs"
  by (induction xs) (auto simp: series_where_def)

lemma length_series_where_map [simp]: "length (series_where xs (map c xs) other) = length xs"
  by (simp add: series_where_map)

lemma gain_entry_nonneg: "not_inf d \<Longrightarrow> fin_nonneg (if fgt d (Fin 0) then d else Fin 0)"
  by (cases d) (auto simp: fgt_def)

lemma loss_entry_nonneg: "not_inf d \<Longrightarrow> fin_nonneg (fneg (if flt d (Fin 0) then d else Fin 0))"
  by (cases d) auto

lemma foldl_fadd_nonneg:
  "0 \<le> a \<Longrightarrow> \<forall>x\<in>set xs. fin_nonneg x \<Longrightarrow> fin_nonneg (foldl fadd (Fin a) xs)"
proof (induction xs arbitrary: a)
  case Nil
  then show ?case by simp
next
  case (Cons x xs)
  from Cons.prems obtain r where r: "x = Fin r" "0 \<le> r"
    by (cases x) auto
  with Cons show ?case by simp
qed

lemma fsum_nonneg: "\<forall>x\<in>set xs. fin_nonneg x \<Longrightarrow> fin_nonneg (fsum xs)"
  by (simp add: fsum_def foldl_fadd_nonneg)

lemma fin_nonneg_not_na: "fin_nonneg x \<Longrightarrow> \<not> isna x"
  by (cases x) auto

lemma rolling_mean_nth:
  assumes "i < length xs"
  shows "rolling_mean w xs ! i =
           (if i + 1 < w then NaN
            else (let win = take w (drop (i + 1 - w) xs)
                  in if list_ex isna win then NaN else fdiv (fsum win) (Fin (real w))))"
  using assms by (simp add: rolling_mean_def)

lemma rolling_mean_nonneg:
  assumes "\<forall>x\<in>set xs. fin_nonneg x" and "i < length xs"
  shows "rolling_mean w xs ! i = (if i + 1 < w \<or> w = 0 then NaN
            else Fin (case fsum (take w (drop (i + 1 - w) xs)) of Fin s \<Rightarrow> s / real w | _ \<Rightarrow> 0))
         \<and> (\<not> (i + 1 < w \<or> w = 0) \<longrightarrow> fin_nonneg (rolling_mean w xs ! i))"
proof -
  let ?win = "take w (drop (i + 1 - w) xs)"
  have sub: "set ?win \<subseteq> set xs"
    by (meson order_trans set_drop_subset set_take_subset)
  with assms(1) have nn: "\<forall>x\<in>set ?win. fin_nonneg x" by blast
  then have "\<not> list_ex isna ?win"
    by (auto simp: list_ex_iff fin_nonneg_not_na)
  moreover from nn have "fin_nonneg (fsum ?win)" by (rule fsum_nonneg)
  then obtain s where s: "fsum ?win = Fin s" "0 \<le> s"
    by (cases "fsum ?win") auto
  moreover have "w = 0 \<Longrightarrow> fsum ?win = Fin 0" by (simp add: fsum_def)
  ultimately show ?thesis
    using assms(2) by (auto simp: rolling_mean_nth Let_def inf_of_sign_def)
qed

lemma avg_gain_cases:
  assumes "t < length cs"
  shows "avg_gain (map Fin cs) w ! t = NaN \<and> (t + 1 < w \<or> w = 0)
       \<or> fin_nonneg (avg_gain (map Fin cs) w ! t) \<and> \<not> (t + 1 < w \<or> w = 0)"
proof -
  let ?xs = "series_where (diff (map Fin cs)) (map (\<lambda>d. fgt d (Fin 0)) (diff (map Fin cs))) (Fin 0)"
  have "\<forall>x\<in>set ?xs. fin_nonneg x"
  proof
    fix x assume "x \<in> set ?xs"
    then obtain d where d: "d \<in> set (diff (map Fin cs))"
        and x: "x = (if fgt d (Fin 0) then d else Fin 0)"
      unfolding series_where_map by auto
    from d have "not_inf d" by (rule diff_not_inf)
    then show "fin_nonneg x" unfolding x by (rule gain_entry_nonneg)
  qed
  moreover have "t < length ?xs" using assms by simp
  ultimately show ?thesis
    using rolling_mean_nonneg [of ?xs t w] by (auto simp: avg_gain_def Let_def)
qed

lemma avg_loss_cases:
  assumes "t < length cs"
  shows "avg_loss (map Fin cs) w ! t = NaN \<and> (t + 1 < w \<or> w = 0)
       \<or> fin_nonneg (avg_loss (map Fin cs) w ! t) \<and> \<not> (t + 1 < w \<or> w = 0)"
proof -
  let ?xs = "map fneg (series_where (diff (map Fin cs)) (map (\<lambda>d. flt d (Fin 0)) (diff (map Fin cs))) (Fin 0))"
  have "\<forall>x\<in>set ?xs. fin_nonneg x"
  proof
    fix x assume "x \<in> set ?xs"
    then obtain d where d: "d \<in> set (diff (map Fin cs))"
        and x: "x = fneg (if flt d (Fin 0) then d else Fin 0)"
      unfolding series_where_map by auto
    from d have "not_inf d" by (rule diff_not_inf)
    then show "fin_nonneg x" unfolding x by (rule loss_entry_nonneg)
  qed
  moreover have "t < length ?xs" using assms by simp
  ultimately show ?thesis
    using rolling_mean_nonneg [of ?xs t w] by (auto simp: avg_loss_def Let_def)
qed

lemma length_avg_gain [simp]: "length (avg_gain xs w) = length xs"
  by (simp add: avg_gain_def Let_def)

lemma length_avg_loss [simp]: "length (avg_loss xs w) = length xs"
  by (simp add: avg_loss_def Let_def)

lemma calculate_rsi_nth:
  "t < length xs \<Longrightarrow>
   calculate_rsi xs w ! t = rsi_of_rs (fdiv (avg_gain xs w ! t) (avg_loss xs w ! t))"
  by (simp add: calculate_rsi_def Let_def)

lemma rsi_bounds:
  assumes "0 \<le> g" and "0 < l"
  shows "\<exists>r. rsi_of_rs (fdiv (Fin g) (Fin l)) = Fin r \<and> 0 \<le> r \<and> r \<le> 100"
proof -
  have pos: "0 < 1 + g / l" using assms by (simp add: add_pos_nonneg)
  then have ne: "1 + g / l \<noteq> 0" by simp
  have "100 / (1 + g / l) \<le> 100"
    using assms pos by (simp add: divide_le_eq)
  moreover have "0 \<le> 100 / (1 + g / l)"
    using pos by simp
  ultimately show ?thesis
    using assms ne by (simp add: rsi_of_rs_def fsub_def)
qed

lemma rsi_no_loss_gain:
  "0 < g \<Longrightarrow> rsi_of_rs (fdiv (Fin g) (Fin 0)) = Fin 100"
  by (simp add: rsi_of_rs_def fsub_def inf_of_sign_def)

lemma rsi_no_loss_no_gain: "rsi_of_rs (fdiv (Fin 0) (Fin 0)) = NaN"
  by (simp add: rsi_of_rs_def fsub_def inf_of_sign_def)

text \<open>
  Were the zero divisor a negative zero, the quotient would be the negative infinity; the
  RSI is 100 for either infinity.
\<close>

lemma rsi_neg_inf: "rsi_of_rs NInf = Fin 100 \<and> rsi_of_rs PInf = Fin 100"
  by (simp add: rsi_of_rs_def fsub_def)

lemma length_Close_col [simp]: "length (Close_col df) = length df"
  by (simp add: Close_col_def)

lemma length_Volume_col [simp]: "length (Volume_col df) = length df"
  by (simp add: Volume_col_def)

lemma rolling_mean_window: "i < length xs \<Longrightarrow> rolling_mean w xs ! i = window_mean w xs i"
  by (simp add: rolling_mean_def window_mean_def)

lemma pct_change_at: "i < length xs \<Longrightarrow> pct_change xs ! i = change_at xs i"
  by (simp add: pct_change_def change_at_def)

lemma length_pct_change [simp]: "length (pct_change xs) = length xs"
  by (simp add: pct_change_def)

lemma Dist_SMA_col_at: "i < length df \<Longrightarrow> Dist_SMA_col w df ! i = dist_at w df i"
  by (simp add: Dist_SMA_col_def dist_at_def SMA_col_def rolling_mean_window Let_def)

lemma avg_gain_at: "i < length xs \<Longrightarrow> avg_gain xs w ! i = window_mean w (gains xs) i"
  by (simp add: avg_gain_def gains_def Let_def rolling_mean_window)

lemma avg_loss_at: "i < length xs \<Longrightarrow> avg_loss xs w ! i = window_mean w (losses xs) i"
  by (simp add: avg_loss_def losses_def Let_def rolling_mean_window)

lemma RSI_col_at: "i < length df \<Longrightarrow> RSI_col df ! i = rsi_at df i"
  by (simp add: RSI_col_def rsi_at_def calculate_rsi_nth avg_gain_at avg_loss_at)

lemma feature_at_row: "i < length df \<Longrightarrow> feature_at df i = feature_row_at df i"
  by (simp add: feature_at_def feature_row_at_def Returns_col_def Vol_Change_col_def
      pct_change_at Dist_SMA_col_at RSI_col_at)

lemma row_has_na_at: "i < length df \<Longrightarrow> row_has_na df i = row_na_at df i"
  by (simp add: row_has_na_def row_na_at_def Returns_col_def Vol_Change_col_def SMA_col_def
      pct_change_at Dist_SMA_col_at RSI_col_at rolling_mean_window)

lemma warmup_row_has_na: "i < length df \<Longrightarrow> i + 1 < 50 \<Longrightarrow> row_has_na df i"
  by (simp add: row_has_na_def SMA_col_def rolling_mean_window window_mean_def)

lemma length_alternating [simp]: "length (alternating n) = n"
  by (simp add: alternating_def)

lemma length_rising [simp]: "length (rising n) = n"
  by (simp add: rising_def)

lemma RSI_fillna_feature_at: "RSI (fillna (feature_at df t)) = fillna0 (RSI_col df ! t)"
  by (simp add: fillna_def feature_at_def)

text \<open>
  C3 (corrected). At every row of every series: when the average loss over the 14-bar window
  is strictly positive, the RSI is a number in \<open>[0, 100]\<close>; when the average loss and the
  average gain are both \<open>0\<close>, the RSI is \<open>NaN\<close> and the neutralised value of the feature row is
  exactly \<open>0.0\<close>; when the average loss is \<open>0\<close> and the average gain is positive, the RSI is
  \<open>100\<close> and the neutralised value is \<open>100\<close>. Whenever the average loss is a number, the
  average gain is a non-negative number, so the cases are exhaustive.
\<close>

theorem C3_rsi_range_and_neutralised:
  assumes "t < length df"
  shows "(\<forall>l. avg_loss (Close_col df) 14 ! t = Fin l \<and> 0 < l \<longrightarrow>
            (\<exists>r. RSI_col df ! t = Fin r \<and> 0 \<le> r \<and> r \<le> 100))
       \<and> (avg_loss (Close_col df) 14 ! t = Fin 0 \<and> avg_gain (Close_col df) 14 ! t = Fin 0 \<longrightarrow>
            RSI_col df ! t = NaN \<and> RSI (fillna (feature_at df t)) = Fin 0)
       \<and> (\<forall>g. avg_loss (Close_col df) 14 ! t = Fin 0 \<and> avg_gain (Close_col df) 14 ! t = Fin g
              \<and> 0 < g \<longrightarrow>
            RSI_col df ! t = Fin 100 \<and> RSI (fillna (feature_at df t)) = Fin 100)
       \<and> (\<forall>l. avg_loss (Close_col df) 14 ! t = Fin l \<longrightarrow>
            (\<exists>g. avg_gain (Close_col df) 14 ! t = Fin g \<and> 0 \<le> g))"
proof -
  let ?cs = "map Close df"
  have cc: "Close_col df = map Fin ?cs"
    by (simp add: Close_col_def)
  have t: "t < length ?cs" using assms by simp
  have rsi: "RSI_col df ! t =
      rsi_of_rs (fdiv (avg_gain (Close_col df) 14 ! t) (avg_loss (Close_col df) 14 ! t))"
    using assms by (simp add: RSI_col_def calculate_rsi_nth)
  have gain: "\<exists>g. avg_gain (Close_col df) 14 ! t = Fin g \<and> 0 \<le> g"
    if "avg_loss (Close_col df) 14 ! t = Fin l" for l
  proof -
    from avg_loss_cases [OF t, of 14] that have "\<not> (t + 1 < 14 \<or> (14::nat) = 0)"
      unfolding cc by auto
    with avg_gain_cases [OF t, of 14] have "fin_nonneg (avg_gain (Close_col df) 14 ! t)"
      unfolding cc by auto
    then show ?thesis
      by (cases "avg_gain (Close_col df) 14 ! t") auto
  qed
  have a: "\<exists>r. RSI_col df ! t = Fin r \<and> 0 \<le> r \<and> r \<le> 100"
    if "avg_loss (Close_col df) 14 ! t = Fin l" "0 < l" for l
  proof -
    from gain [OF that(1)] obtain g where g: "avg_gain (Close_col df) 14 ! t = Fin g" "0 \<le> g"
      by blast
    show ?thesis
      unfolding rsi g(1) that(1) using g(2) that(2) by (rule rsi_bounds)
  qed
  have b: "RSI_col df ! t = NaN \<and> RSI (fillna (feature_at df t)) = Fin 0"
    if "avg_loss (Close_col df) 14 ! t = Fin 0" "avg_gain (Close_col df) 14 ! t = Fin 0"
  proof -
    have "RSI_col df ! t = NaN"
      unfolding rsi that by (rule rsi_no_loss_no_gain)
    then show ?thesis
      by (simp add: RSI_fillna_feature_at fillna0_def)
  qed
  have c: "RSI_col df ! t = Fin 100 \<and> RSI (fillna (feature_at df t)) = Fin 100"
    if "avg_loss (Close_col df) 14 ! t = Fin 0" "avg_gain (Close_col df) 14 ! t = Fin g" "0 < g"
    for g
  proof -
    have "RSI_col df ! t = Fin 100"
      unfolding rsi that(1,2) using that(3) by (rule rsi_no_loss_gain)
    then show ?thesis
      by (simp add: RSI_fillna_feature_at fillna0_def)
  qed
  from a b c gain show ?thesis by blast
qed

theorem C3_rsi_range_and_neutralised_witness:
  "avg_loss (Close_col (alternating 16)) 14 ! 15 = Fin (1 / 2)
   \<and> (\<exists>r. RSI_col (alternating 16) ! 15 = Fin r \<and> 0 \<le> r \<and> r \<le> 100)"
proof -
  have t: "15 < length (alternating 16)" by simp
  have "window_mean 14 (losses (Close_col (alternating 16))) 15 = Fin (1 / 2)"
    by code_simp
  then have l: "avg_loss (Close_col (alternating 16)) 14 ! 15 = Fin (1 / 2)"
    by (simp add: avg_loss_at)
  from C3_rsi_range_and_neutralised [OF t]
  have "avg_loss (Close_col (alternating 16)) 14 ! 15 = Fin (1 / 2) \<and> 0 < (1 / 2 :: real) \<longrightarrow>
        (\<exists>r. RSI_col (alternating 16) ! 15 = Fin r \<and> 0 \<le> r \<and> r \<le> 100)"
    by blast
  with l show ?thesis by simp
qed

text \<open>
  On 61 bars whose close rises by 1 each day, the average loss at the last row is \<open>0\<close> and
  the RSI of the neutralised last feature row, the row that the predictor scales, is \<open>100\<close>,
  not \<open>0\<close>.
\<close>

theorem C3_no_loss_counterexample:
  "avg_loss (Close_col (rising 61)) 14 ! 60 = Fin 0
   \<and> calculate_features (rising 61) = Some (feature_at (rising 61) 60)
   \<and> RSI (fillna (feature_at (rising 61) 60)) = Fin 100
   \<and> RSI (fillna (feature_at (rising 61) 60)) \<noteq> Fin 0"
proof -
  have "window_mean 14 (losses (Close_col (rising 61))) 60 = Fin 0"
    by code_simp
  then have l: "avg_loss (Close_col (rising 61)) 14 ! 60 = Fin 0"
    by (simp add: avg_loss_at)
  have "rising 61 \<noteq> []"
    by (simp add: rising_def)
  then have f: "calculate_features (rising 61) = Some (feature_at (rising 61) 60)"
    by (simp add: calculate_features_def)
  have "rsi_at (rising 61) 60 = Fin 100"
    by code_simp
  then have r: "RSI (fillna (feature_at (rising 61) 60)) = Fin 100"
    by (simp add: RSI_fillna_feature_at RSI_col_at fillna0_def)
  from l f r show ?thesis by simp
qed

subsection \<open>Training data and training\<close>

lemma length_shift_next [simp]: "length (shift_next xs) = length xs"
  by (simp add: shift_next_def)

lemma length_Target_col [simp]: "length (Target_col df) = length df"
  by (simp add: Target_col_def)

lemma Target_col_nth:
  assumes "i < length df"
  shows "Target_col df ! i =
           (if i + 1 < length df \<and> Close (df ! i) < Close (df ! (i + 1)) then 1 else 0)"
  using assms by (simp add: Target_col_def shift_next_def Close_col_def fgt_def)

lemma Target_col_last: "df \<noteq> [] \<Longrightarrow> Target_col df ! (length df - 1) = 0"
  by (simp add: Target_col_nth)

lemma final_bar_kept:
  assumes "df \<noteq> []" and "\<not> row_has_na df (length df - 1)"
  shows "\<exists>X y. prepare_data df = Inr (X, y)
           \<and> last X = (length df - 1, feature_at df (length df - 1))
           \<and> last y = (length df - 1, 0)"
proof -
  define n where "n = length df - 1"
  let ?P = "\<lambda>i. \<not> row_has_na df i"
  have len: "length df = Suc n" using assms(1) by (simp add: n_def)
  have tl: "Target_col df ! n = 0"
    unfolding n_def by (rule Target_col_last [OF assms(1)])
  have keep: "?P n" unfolding n_def by (rule assms(2))
  have "[0..<length df] = [0..<n] @ [n]"
    by (simp only: len upt_Suc_append [OF le0])
  then have k: "filter ?P [0..<length df] = filter ?P [0..<n] @ [n]"
    using keep by simp
  have "prepare_data df =
          Inr (map (\<lambda>i. (i, feature_at df i)) (filter ?P [0..<n] @ [n]),
               map (\<lambda>i. (i, Target_col df ! i)) (filter ?P [0..<n] @ [n]))"
    using assms(1) by (simp only: prepare_data_def Let_def k if_False)
  then show ?thesis
    using len by (simp add: tl)
qed

lemma kept_after_warmup:
  assumes "49 \<le> length df"
  shows "filter (\<lambda>i. \<not> row_has_na df i) [0..<length df] =
         filter (\<lambda>i. \<not> row_has_na df i) [49..<length df]"
proof -
  have "[0..<length df] = [0..<49] @ [49..<length df]"
    using assms upt_add_eq_append [of 0 49 "length df - 49"] by simp
  moreover have "filter (\<lambda>i. \<not> row_has_na df i) [0..<49] = []"
    using assms by (auto simp: filter_empty_conv warmup_row_has_na)
  ultimately show ?thesis by simp
qed

text \<open>
  C1. On 51 bars whose close alternates between 11 and 10, \<open>prepare_data\<close> returns the rows
  49 and 50. Row 49 has the label 1 (the next close, 11, exceeds its close, 10). Row 50 is
  the final bar: it has no successor, yet it is in the table, with the label 0.
\<close>

theorem C1_final_bar_kept_with_label:
  "prepare_data (alternating 51) =
     Inr ([(49, \<lparr>Returns = Fin (- (1 / 11)), Dist_SMA_20 = Fin (- (1 / 21)),
                 Dist_SMA_50 = Fin (- (1 / 21)), RSI = Fin 50, Vol_Change = Fin 0\<rparr>),
           (50, \<lparr>Returns = Fin (1 / 10), Dist_SMA_20 = Fin (1 / 21),
                 Dist_SMA_50 = Fin (1 / 21), RSI = Fin 50, Vol_Change = Fin 0\<rparr>)],
          [(49, 1), (50, 0)])"
proof -
  let ?D = "alternating 51"
  have ne: "?D \<noteq> []" by (simp add: alternating_def)
  have u: "[49..<length ?D] = [49, 50]"
    by (simp add: upt_rec)
  have "\<not> row_na_at ?D 49" "\<not> row_na_at ?D 50"
    by code_simp+
  then have "\<not> row_has_na ?D 49" "\<not> row_has_na ?D 50"
    by (simp_all add: row_has_na_at)
  then have k: "filter (\<lambda>i. \<not> row_has_na ?D i) [0..<length ?D] = [49, 50]"
    by (subst kept_after_warmup) (simp_all add: u)
  have f49: "feature_row_at ?D 49 =
      \<lparr>Returns = Fin (- (1 / 11)), Dist_SMA_20 = Fin (- (1 / 21)),
       Dist_SMA_50 = Fin (- (1 / 21)), RSI = Fin 50, Vol_Change = Fin 0\<rparr>"
    by code_simp
  have f50: "feature_row_at ?D 50 =
      \<lparr>Returns = Fin (1 / 10), Dist_SMA_20 = Fin (1 / 21),
       Dist_SMA_50 = Fin (1 / 21), RSI = Fin 50, Vol_Change = Fin 0\<rparr>"
    by code_simp
  have t: "Target_col ?D ! 49 = 1" "Target_col ?D ! 50 = 0"
    by code_simp+
  have f: "feature_at ?D 49 = feature_row_at ?D 49" "feature_at ?D 50 = feature_row_at ?D 50"
    by (simp_all add: feature_at_row)
  show ?thesis
    unfolding prepare_data_def Let_def k using ne by (simp add: f f49 f50 t)
qed

text \<open>
  C8. On an empty fetched series \<open>prepare_data\<close> raises \<open>ValueError('No data fetched.')\<close>, and
  \<open>build_model\<close> ends with that exception caught and with the files as they were: none of the
  model, the scaler and the metadata is written.
\<close>

theorem C8_empty_series_no_writes:
  "prepare_data [] = Inl (ValueError ''No data fetched.'')
   \<and> build_model (Inr []) fit now can_write fs = (fs, Some (ValueError ''No data fetched.''))"
  by (simp add: prepare_data_def build_model_def)

lemma build_model_all_or_none:
  assumes "\<forall>p. can_write p" and "build_model fetched fit now can_write fs = (fs', r)"
  shows "fs' = fs \<and> r \<noteq> None
       \<or> (\<exists>m s md. r = None \<and>
             fs' = fs(''adaboost_model.joblib'' \<mapsto> ModelDump m, ''scaler.joblib'' \<mapsto> ScalerDump s,
                      ''model_metadata.json'' \<mapsto> MetadataJson md))"
  using assms
  by (auto simp: build_model_def write_file_def split: sum.splits prod.splits)

subsection \<open>Direction prediction\<close>

lemma Close_col_last: "df \<noteq> [] \<Longrightarrow> Close_col df ! (length df - 1) = Fin (Close (last df))"
  by (simp add: Close_col_def last_conv_nth)

lemma fgt_irrefl: "\<not> fgt x x"
  by (cases x) (simp_all add: fgt_def)

lemma model_steps_success:
  assumes "calc df = Some f" and "transform (fillna f) = Inr z"
    and "predict_proba z = Inr (prob # rest)" and "2 \<le> length prob"
  shows "model_steps transform predict_proba calc df vars =
           ((if prob ! 1 > 0.5 then (''UP'', prob ! 1) else (''DOWN'', prob ! 0)), None)"
  using assms by (simp add: model_steps_def Let_def)

lemma model_steps_failure:
  assumes "calc df = None
         \<or> (\<exists>f e. calc df = Some f \<and> transform (fillna f) = Inl e)
         \<or> (\<exists>f z e. calc df = Some f \<and> transform (fillna f) = Inr z \<and> predict_proba z = Inl e)"
  shows "fst (model_steps transform predict_proba calc df vars) = vars"
  using assms by (auto simp: model_steps_def)

lemma model_steps_raise_keeps:
  "snd (model_steps transform predict_proba calc df vars) = Some e \<Longrightarrow>
   fst (model_steps transform predict_proba calc df vars) = vars"
  by (auto simp: model_steps_def Let_def split: option.splits sum.splits list.splits if_splits)

lemma calculate_features_last:
  "df \<noteq> [] \<Longrightarrow> calculate_features df = Some (feature_at df (length df - 1))"
  by (simp add: calculate_features_def)

text \<open>
  C2 (corrected). With model and scaler loaded: on a series of more than 60 bars, when the
  scaler accepts the neutralised latest feature row and the model returns class
  probabilities for it, both predictors emit UP if the class-1 probability exceeds \<open>0.5\<close> and
  DOWN otherwise, with the probability of the emitted class as confidence; on a non-empty
  series of at most 60 bars both return normally the sentinel \<open>Insufficient Data\<close> with
  confidence \<open>0.0\<close>.
\<close>

theorem C2_model_call_above_60:
  "(60 < length df \<and> transform (fillna (feature_at df (length df - 1))) = Inr z
      \<and> predict_proba z = Inr (prob # rest) \<and> 2 \<le> length prob \<longrightarrow>
      (\<exists>r. predict df ticker (Some predict_proba) (Some transform) = Inr r
         \<and> cm_prediction (custom_model r) = (if prob ! 1 > 0.5 then ''UP'' else ''DOWN'')
         \<and> cm_confidence (custom_model r) = (if prob ! 1 > 0.5 then prob ! 1 else prob ! 0))
      \<and> hf_custom_model df (Some predict_proba) (Some transform) =
            Inr (if prob ! 1 > 0.5 then (''UP'', prob ! 1) else (''DOWN'', prob ! 0)))
   \<and> (df \<noteq> [] \<and> length df \<le> 60 \<longrightarrow>
      (\<exists>r. predict df ticker (Some predict_proba) (Some transform) = Inr r
         \<and> cm_prediction (custom_model r) = ''Insufficient Data''
         \<and> cm_confidence (custom_model r) = 0)
      \<and> hf_custom_model df (Some predict_proba) (Some transform) = Inr (''Insufficient Data'', 0))"
proof (intro conjI impI)
  assume a: "60 < length df \<and> transform (fillna (feature_at df (length df - 1))) = Inr z
      \<and> predict_proba z = Inr (prob # rest) \<and> 2 \<le> length prob"
  then have ne: "df \<noteq> []" by auto
  have ms: "model_steps transform predict_proba calculate_features df vars =
           ((if prob ! 1 > 0.5 then (''UP'', prob ! 1) else (''DOWN'', prob ! 0)), None)" for vars
    using a by (intro model_steps_success [where f = "feature_at df (length df - 1)" and z = z and rest = rest])
      (simp_all add: calculate_features_last ne)
  show "\<exists>r. predict df ticker (Some predict_proba) (Some transform) = Inr r
         \<and> cm_prediction (custom_model r) = (if prob ! 1 > 0.5 then ''UP'' else ''DOWN'')
         \<and> cm_confidence (custom_model r) = (if prob ! 1 > 0.5 then prob ! 1 else prob ! 0)"
    using a ne by (simp add: predict_def predict_with_def custom_block_def ms Let_def)
  show "hf_custom_model df (Some predict_proba) (Some transform) =
            Inr (if prob ! 1 > 0.5 then (''UP'', prob ! 1) else (''DOWN'', prob ! 0))"
    using a by (simp add: hf_custom_model_def ms)
next
  assume b: "df \<noteq> [] \<and> length df \<le> 60"
  show "\<exists>r. predict df ticker (Some predict_proba) (Some transform) = Inr r
         \<and> cm_prediction (custom_model r) = ''Insufficient Data''
         \<and> cm_confidence (custom_model r) = 0"
    using b by (simp add: predict_def predict_with_def custom_block_def Let_def)
  show "hf_custom_model df (Some predict_proba) (Some transform) = Inr (''Insufficient Data'', 0)"
    using b by (simp add: hf_custom_model_def)
qed

theorem C2_model_call_above_60_witness:
  "\<exists>r. predict (alternating 61) ''X'' (Some (fixed_model 0.7)) (Some id_scaler) = Inr r
      \<and> cm_prediction (custom_model r) = ''UP'' \<and> cm_confidence (custom_model r) = 0.7"
proof -
  have "60 < length (alternating 61)
      \<and> id_scaler (fillna (feature_at (alternating 61) (length (alternating 61) - 1))) =
          Inr (fillna (feature_at (alternating 61) (length (alternating 61) - 1)))
      \<and> fixed_model 0.7 (fillna (feature_at (alternating 61) (length (alternating 61) - 1))) =
          Inr ([1 - 0.7, 0.7] # [])
      \<and> 2 \<le> length [1 - 0.7, 0.7 :: real]"
    by (simp add: id_scaler_def fixed_model_def)
  with C2_model_call_above_60 [of "alternating 61" id_scaler
      "fillna (feature_at (alternating 61) (length (alternating 61) - 1))"
      "fixed_model 0.7" "[1 - 0.7, 0.7]" "[]" "''X''"]
  show ?thesis by simp
qed

text \<open>
  On exactly 60 bars, with a working scaler and model, \<open>predict\<close> returns the sentinel and no
  model call; on an empty series it raises the HTTP error 404.
\<close>

theorem C2_sixty_bars_counterexample:
  "predict (alternating 60) ''X'' (Some (fixed_model 0.7)) (Some id_scaler) =
     Inr \<lparr>p_symbol = ''X'', prediction = ''DOWN'', current_price = Fin 10, sma_20 = Fin (21 / 2),
          custom_model = \<lparr>cm_prediction = ''Insufficient Data'', cm_confidence = 0,
                           cm_model_type = ''AdaBoost''\<rparr>\<rparr>
   \<and> predict [] ''X'' (Some (fixed_model 0.7)) (Some id_scaler) =
       Inl (HTTPException 404 ''Stock data not found'')"
proof -
  let ?D = "alternating 60"
  have ne: "?D \<noteq> []" by (simp add: alternating_def)
  have "window_mean 20 (Close_col ?D) 59 = Fin (21 / 2)"
    by code_simp
  then have s: "rolling_mean 20 (Close_col ?D) ! 59 = Fin (21 / 2)"
    by (simp add: rolling_mean_window)
  have c: "Close_col ?D ! 59 = Fin 10"
    by code_simp
  show ?thesis
    using ne by (simp add: predict_def predict_with_def custom_block_def s c fgt_def)
qed

text \<open>
  C9. On a non-empty series of at most 20 bars, \<open>predict\<close> of \<open>api.py\<close> reports the last close
  as the SMA, the baseline prediction is DOWN, and (the series being shorter than 61 bars)
  the custom model entry is the sentinel, whatever artifacts are loaded.
\<close>

theorem C9_short_series_baseline_down:
  assumes "df \<noteq> []" and "length df \<le> 20"
  shows "predict df ticker model_opt scaler_opt =
           Inr \<lparr>p_symbol = ticker, prediction = ''DOWN'',
                current_price = Fin (Close (last df)), sma_20 = Fin (Close (last df)),
                custom_model = \<lparr>cm_prediction = ''Insufficient Data'', cm_confidence = 0,
                                 cm_model_type = ''AdaBoost''\<rparr>\<rparr>"
proof -
  have c: "Close_col df ! (length df - Suc 0) = Fin (Close (last df))"
    using Close_col_last [OF assms(1)] by simp
  show ?thesis
    using assms
    by (cases model_opt; cases scaler_opt)
      (simp_all add: predict_def predict_with_def custom_block_def c fgt_def Let_def)
qed

theorem C9_short_series_baseline_down_witness:
  "predict (rising 5) ''X'' (Some (fixed_model 0.7)) (Some id_scaler) =
     Inr \<lparr>p_symbol = ''X'', prediction = ''DOWN'', current_price = Fin 5, sma_20 = Fin 5,
          custom_model = \<lparr>cm_prediction = ''Insufficient Data'', cm_confidence = 0,
                           cm_model_type = ''AdaBoost''\<rparr>\<rparr>"
proof -
  have ne: "rising 5 \<noteq> []" by (simp add: rising_def)
  have le: "length (rising 5) \<le> 20" by simp
  have c: "Close (last (rising 5)) = 5" by code_simp
  from C9_short_series_baseline_down [OF ne le, of "''X''" "Some (fixed_model 0.7)" "Some id_scaler"]
  show ?thesis by (simp only: c)
qed

text \<open>
  C10. On a series of more than 60 bars with model and scaler loaded, when the feature
  computation fails (and yields an empty frame), or the scaler raises, or the probability
  evaluation raises, \<open>predict\<close> of \<open>api.py\<close> returns normally: the custom model entry is the
  sentinel \<open>Insufficient Data\<close> with confidence \<open>0.0\<close>, and the baseline prediction, the current
  price and the SMA are the ones computed from the series alone, as when no model is loaded.
\<close>

theorem C10_failed_model_steps_keep_sentinel:
  assumes "60 < length df"
    and "calc df = None
         \<or> (\<exists>f e. calc df = Some f \<and> transform (fillna f) = Inl e)
         \<or> (\<exists>f z e. calc df = Some f \<and> transform (fillna f) = Inr z \<and> predict_proba z = Inl e)"
  shows "predict_with calc df ticker (Some predict_proba) (Some transform) =
           Inr \<lparr>p_symbol = ticker,
                prediction = (if fgt (Close_col df ! (length df - 1))
                                     (rolling_mean 20 (Close_col df) ! (length df - 1))
                              then ''UP'' else ''DOWN''),
                current_price = Close_col df ! (length df - 1),
                sma_20 = rolling_mean 20 (Close_col df) ! (length df - 1),
                custom_model = \<lparr>cm_prediction = ''Insufficient Data'', cm_confidence = 0,
                                 cm_model_type = ''AdaBoost''\<rparr>\<rparr>
       \<and> predict_with calc df ticker (Some predict_proba) (Some transform) =
           predict_with calc df ticker (None :: ('z \<Rightarrow> exn + real list list) option)
             (None :: (feature_row \<Rightarrow> exn + 'z) option)"
proof -
  have ne: "df \<noteq> []" using assms(1) by auto
  have k: "fst (model_steps transform predict_proba calc df (''Insufficient Data'', 0)) =
             (''Insufficient Data'', 0)"
    using assms(2) by (rule model_steps_failure)
  show ?thesis
    using assms(1) ne by (simp add: predict_with_def custom_block_def k Let_def)
qed

theorem C10_failed_model_steps_keep_sentinel_witness:
  "predict (alternating 61) ''X'' (Some (fixed_model 0.7)) (Some failing_scaler) =
     Inr \<lparr>p_symbol = ''X'', prediction = ''UP'', current_price = Fin 11, sma_20 = Fin (21 / 2),
          custom_model = \<lparr>cm_prediction = ''Insufficient Data'', cm_confidence = 0,
                           cm_model_type = ''AdaBoost''\<rparr>\<rparr>"
proof -
  let ?D = "alternating 61"
  have len: "60 < length ?D" by simp
  have ne: "?D \<noteq> []" by (simp add: alternating_def)
  have h: "calculate_features ?D = None
         \<or> (\<exists>f e. calculate_features ?D = Some f \<and> failing_scaler (fillna f) = Inl e)
         \<or> (\<exists>f z e. calculate_features ?D = Some f \<and> failing_scaler (fillna f) = Inr z
               \<and> fixed_model 0.7 z = Inl e)"
    using ne by (simp add: calculate_features_last failing_scaler_def)
  have "window_mean 20 (Close_col ?D) 60 = Fin (21 / 2)"
    by code_simp
  then have s: "rolling_mean 20 (Close_col ?D) ! 60 = Fin (21 / 2)"
    by (simp add: rolling_mean_window)
  have c: "Close_col ?D ! 60 = Fin 11"
    by code_simp
  from C10_failed_model_steps_keep_sentinel [where calc = calculate_features and df = ?D and transform = failing_scaler
      and predict_proba = "fixed_model 0.7" and ticker = "''X''", OF len h]
  have "predict_with calculate_features ?D ''X'' (Some (fixed_model 0.7)) (Some failing_scaler) =
           Inr \<lparr>p_symbol = ''X'',
                prediction = (if fgt (Close_col ?D ! (length ?D - 1))
                                     (rolling_mean 20 (Close_col ?D) ! (length ?D - 1))
                              then ''UP'' else ''DOWN''),
                current_price = Close_col ?D ! (length ?D - 1),
                sma_20 = rolling_mean 20 (Close_col ?D) ! (length ?D - 1),
                custom_model = \<lparr>cm_prediction = ''Insufficient Data'', cm_confidence = 0,
                                 cm_model_type = ''AdaBoost''\<rparr>\<rparr>"
    by (rule conjunct1)
  then show ?thesis
    unfolding predict_def by (simp add: s c fgt_def)
qed

end
